theory Spec2Isabelle
  imports Complex_Main "HOL-Library.Code_Target_Nat"
begin

section \<open>Strings, numbers and values of the host language\<close>

text \<open>
  A Python \<open>str\<close> is a sequence of Unicode code points, so a string is a list of
  natural numbers and \<open>length\<close> counts code points. This matters for the patterns of
  the source, which name the code points U+2018 and U+2019 (the curly single quotes).
  \<open>str\<close> turns an ASCII literal into such a list.

  Character classes: \<open>is_space\<close> is the full list of code points for which
  \<open>str.isspace\<close> holds (the class used by \<open>str.strip\<close>, by \<open>\s\<close> in a
  \<open>str\<close> pattern and by \<open>float\<close>). \<open>is_word\<close> (the class \<open>\w\<close>),
  \<open>upper_char\<close>, \<open>lower_char\<close> and \<open>is_digit\<close> are the ASCII part of the
  corresponding Unicode tables: code points above 127 are neither word characters nor
  digits here, and are left alone by \<open>upper\<close> and \<open>lower\<close>. The two uses of case in
  the source do not feel the difference: no code point above 127 has an upper-case form
  that is one of the letters of \<open>WHERE\<close>, and none matches a letter of \<open>AND\<close> under
  \<open>re.IGNORECASE\<close>.
\<close>

type_synonym pystr = "nat list"

definition str :: "string \<Rightarrow> pystr" where
  "str s = map of_char s"

definition is_space :: "nat \<Rightarrow> bool" where
  "is_space c \<longleftrightarrow>
     (9 \<le> c \<and> c \<le> 13) \<or> (28 \<le> c \<and> c \<le> 32) \<or> c = 133 \<or> c = 160 \<or> c = 5760 \<or>
     (8192 \<le> c \<and> c \<le> 8202) \<or> c = 8232 \<or> c = 8233 \<or> c = 8239 \<or> c = 8287 \<or> c = 12288"

definition is_digit :: "nat \<Rightarrow> bool" where
  "is_digit c \<longleftrightarrow> 48 \<le> c \<and> c \<le> 57"

definition is_word :: "nat \<Rightarrow> bool" where
  "is_word c \<longleftrightarrow> is_digit c \<or> (65 \<le> c \<and> c \<le> 90) \<or> (97 \<le> c \<and> c \<le> 122) \<or> c = 95"

definition upper_char :: "nat \<Rightarrow> nat" where
  "upper_char c = (if 97 \<le> c \<and> c \<le> 122 then c - 32 else c)"

definition lower_char :: "nat \<Rightarrow> nat" where
  "lower_char c = (if 65 \<le> c \<and> c \<le> 90 then c + 32 else c)"

definition upper :: "pystr \<Rightarrow> pystr" where
  "upper s = map upper_char s"

definition lower :: "pystr \<Rightarrow> pystr" where
  "lower s = map lower_char s"

definition lstrip :: "pystr \<Rightarrow> pystr" where
  "lstrip s = dropWhile is_space s"

definition rstrip :: "pystr \<Rightarrow> pystr" where
  "rstrip s = rev (dropWhile is_space (rev s))"

definition strip :: "pystr \<Rightarrow> pystr" where
  "strip s = rstrip (lstrip s)"

definition startswith :: "pystr \<Rightarrow> pystr \<Rightarrow> bool" where
  "startswith s p \<longleftrightarrow> take (length p) s = p"

text \<open>\<open>s.startswith((a, b, c))\<close> and \<open>s.endswith((a, b, c))\<close> with one-character
  alternatives: the string is non-empty and its first (last) character is one of them.\<close>

definition startswith_any :: "pystr \<Rightarrow> nat list \<Rightarrow> bool" where
  "startswith_any s cs \<longleftrightarrow> (case s of [] \<Rightarrow> False | c # _ \<Rightarrow> c \<in> set cs)"

definition endswith_any :: "pystr \<Rightarrow> nat list \<Rightarrow> bool" where
  "endswith_any s cs \<longleftrightarrow> (case rev s of [] \<Rightarrow> False | c # _ \<Rightarrow> c \<in> set cs)"

text \<open>The slice \<open>s[1:-1]\<close>.\<close>

definition slice_1_m1 :: "pystr \<Rightarrow> pystr" where
  "slice_1_m1 s = drop 1 (take (length s - 1) s)"

text \<open>
  A Python number. An \<open>int\<close> and a finite \<open>float\<close> are modelled by the rational
  they denote: Python compares the two kinds by exact value, so one constructor covers
  both. The two infinities and NaN are values of their own. Rounding of a decimal
  literal to the nearest binary64 value, and overflow to infinity, are not modelled.
\<close>

datatype pynum = Fin rat | PInf | NInf | NaN

datatype pyval = Num pynum | Str pystr

fun num_eq :: "pynum \<Rightarrow> pynum \<Rightarrow> bool" where
  "num_eq (Fin x) (Fin y) = (x = y)"
| "num_eq PInf PInf = True"
| "num_eq NInf NInf = True"
| "num_eq _ _ = False"

fun num_lt :: "pynum \<Rightarrow> pynum \<Rightarrow> bool" where
  "num_lt NaN _ = False"
| "num_lt _ NaN = False"
| "num_lt (Fin x) (Fin y) = (x < y)"
| "num_lt NInf NInf = False"
| "num_lt NInf _ = True"
| "num_lt _ NInf = False"
| "num_lt PInf _ = False"
| "num_lt _ PInf = True"

text \<open>Strings are ordered lexicographically by code point.\<close>

fun str_lt :: "pystr \<Rightarrow> pystr \<Rightarrow> bool" where
  "str_lt [] [] = False"
| "str_lt [] (y # ys) = True"
| "str_lt (x # xs) [] = False"
| "str_lt (x # xs) (y # ys) = (x < y \<or> (x = y \<and> str_lt xs ys))"

text \<open>
  The exceptions of the source. The four \<open>ValueError\<close>s of the parser are told apart
  by their message; \<open>QueryError e\<close> is the \<open>ValueError\<close> "Invalid query: ..." that
  \<open>Database.query\<close> raises from the \<open>ValueError\<close> \<open>e\<close>. \<open>TypeError\<close> is what an ordering comparison
  between a \<open>str\<close> and a number raises, \<open>KeyError\<close> what a dictionary lookup of a
  missing key raises.
\<close>

datatype error =
    MustStartWithWhere
  | NoConditionsAfterWhere
  | InvalidConditionFormat pystr
  | UnsupportedOperator pystr
  | QueryError error
  | TypeError
  | KeyError

fun is_ValueError :: "error \<Rightarrow> bool" where
  "is_ValueError TypeError = False"
| "is_ValueError KeyError = False"
| "is_ValueError _ = True"

definition py_eq :: "pyval \<Rightarrow> pyval \<Rightarrow> error + bool" where
  "py_eq x y = Inr (case (x, y) of
       (Num a, Num b) \<Rightarrow> num_eq a b
     | (Str a, Str b) \<Rightarrow> a = b
     | _ \<Rightarrow> False)"

definition py_ne :: "pyval \<Rightarrow> pyval \<Rightarrow> error + bool" where
  "py_ne x y = Inr (case (x, y) of
       (Num a, Num b) \<Rightarrow> \<not> num_eq a b
     | (Str a, Str b) \<Rightarrow> a \<noteq> b
     | _ \<Rightarrow> True)"

definition py_lt :: "pyval \<Rightarrow> pyval \<Rightarrow> error + bool" where
  "py_lt x y = (case (x, y) of
       (Num a, Num b) \<Rightarrow> Inr (num_lt a b)
     | (Str a, Str b) \<Rightarrow> Inr (str_lt a b)
     | _ \<Rightarrow> Inl TypeError)"

definition py_gt :: "pyval \<Rightarrow> pyval \<Rightarrow> error + bool" where
  "py_gt x y = (case (x, y) of
       (Num a, Num b) \<Rightarrow> Inr (num_lt b a)
     | (Str a, Str b) \<Rightarrow> Inr (str_lt b a)
     | _ \<Rightarrow> Inl TypeError)"

definition py_le :: "pyval \<Rightarrow> pyval \<Rightarrow> error + bool" where
  "py_le x y = (case (x, y) of
       (Num a, Num b) \<Rightarrow> Inr (num_lt a b \<or> num_eq a b)
     | (Str a, Str b) \<Rightarrow> Inr (str_lt a b \<or> a = b)
     | _ \<Rightarrow> Inl TypeError)"

definition py_ge :: "pyval \<Rightarrow> pyval \<Rightarrow> error + bool" where
  "py_ge x y = (case (x, y) of
       (Num a, Num b) \<Rightarrow> Inr (num_lt b a \<or> num_eq a b)
     | (Str a, Str b) \<Rightarrow> Inr (str_lt b a \<or> a = b)
     | _ \<Rightarrow> Inl TypeError)"

subsection \<open>The built-in \<open>float\<close> on a string\<close>

text \<open>
  \<open>float(s)\<close> strips whitespace and accepts
  \<^verbatim>\<open>
  floatvalue  ::= [sign] (floatnumber | "inf" | "infinity" | "nan")   (any case)
  floatnumber ::= number [exponent]
  number      ::= [digitpart] "." digitpart | digitpart ["."]
  exponent    ::= ("e" | "E") [sign] digitpart
  digitpart   ::= digit (["_"] digit)*
  \<close>
  and raises \<open>ValueError\<close> otherwise, which is \<open>None\<close> here.
\<close>

fun digits_rest :: "pystr \<Rightarrow> nat list \<times> pystr" where
  "digits_rest [] = ([], [])"
| "digits_rest [c] = (if is_digit c then ([c - 48], []) else ([], [c]))"
| "digits_rest (c # d # cs) =
     (if is_digit c then (case digits_rest (d # cs) of (ds, r) \<Rightarrow> ((c - 48) # ds, r))
      else if c = 95 \<and> is_digit d then (case digits_rest cs of (ds, r) \<Rightarrow> ((d - 48) # ds, r))
      else ([], c # d # cs))"

definition digitpart :: "pystr \<Rightarrow> (nat list \<times> pystr) option" where
  "digitpart s = (case s of
       [] \<Rightarrow> None
     | c # cs \<Rightarrow> if is_digit c then (case digits_rest cs of (ds, r) \<Rightarrow> Some ((c - 48) # ds, r))
                else None)"

definition digits_val :: "nat list \<Rightarrow> nat" where
  "digits_val ds = foldl (\<lambda>a d. 10 * a + d) 0 ds"

definition number :: "pystr \<Rightarrow> (nat list \<times> nat list \<times> pystr) option" where
  "number s = (case digitpart s of
       Some (ip, r) \<Rightarrow>
         (case r of
            [] \<Rightarrow> Some (ip, [], r)
          | c # r' \<Rightarrow>
              if c = 46 then
                (case digitpart r' of
                   Some (fp, r'') \<Rightarrow> Some (ip, fp, r'')
                 | None \<Rightarrow> Some (ip, [], r'))
              else Some (ip, [], r))
     | None \<Rightarrow>
         (case s of
            [] \<Rightarrow> None
          | c # r' \<Rightarrow>
              if c = 46 then
                (case digitpart r' of
                   Some (fp, r'') \<Rightarrow> Some ([], fp, r'')
                 | None \<Rightarrow> None)
              else None))"

definition sign :: "pystr \<Rightarrow> bool \<times> pystr" where
  "sign s = (case s of
       [] \<Rightarrow> (False, s)
     | c # cs \<Rightarrow> if c = 45 then (True, cs) else if c = 43 then (False, cs) else (False, s))"

definition exponent :: "pystr \<Rightarrow> int option" where
  "exponent s = (case s of
       [] \<Rightarrow> Some 0
     | c # cs \<Rightarrow>
         if c = 101 \<or> c = 69 then
           (case sign cs of (neg, r) \<Rightarrow>
              (case digitpart r of
                 Some (ds, r') \<Rightarrow>
                   if r' = [] then Some (if neg then - int (digits_val ds) else int (digits_val ds))
                   else None
               | None \<Rightarrow> None))
         else None)"

definition scale :: "rat \<Rightarrow> int \<Rightarrow> rat" where
  "scale m e = (if 0 \<le> e then m * 10 ^ nat e else m / 10 ^ nat (- e))"

definition floatnumber :: "pystr \<Rightarrow> rat option" where
  "floatnumber s = (case number s of
       None \<Rightarrow> None
     | Some (ip, fp, r) \<Rightarrow>
         (case exponent r of
            None \<Rightarrow> None
          | Some e \<Rightarrow>
              Some (scale (of_nat (digits_val ip) + of_nat (digits_val fp) / 10 ^ length fp) e)))"

definition py_float :: "pystr \<Rightarrow> pynum option" where
  "py_float s =
     (case sign (strip s) of (neg, r) \<Rightarrow>
        if lower r = str ''inf'' \<or> lower r = str ''infinity'' then Some (if neg then NInf else PInf)
        else if lower r = str ''nan'' then Some NaN
        else (case floatnumber r of
                None \<Rightarrow> None
              | Some x \<Rightarrow> Some (Fin (if neg then - x else x))))"

section \<open>Regular expressions of the host language\<close>

text \<open>
  The patterns of the source are matched as Python's backtracking matcher does. \<open>run r s\<close>
  lists every way in which \<open>r\<close> matches a prefix of \<open>s\<close>, in the order in which the
  matcher tries them (a greedy quantifier offers its longest match first, an alternation
  its left branch first); each entry holds the texts of the groups closed so far, the
  matched prefix and the rest. The matcher returns the first way that lets the whole
  pattern succeed, which is the head of the list. Quantifiers occur in the source on
  character classes only, so \<open>Star\<close> and \<open>Plus\<close> take a class. \<open>ILit\<close> is a literal
  under \<open>re.IGNORECASE\<close>.
\<close>

datatype regex =
    Cls "nat \<Rightarrow> bool"
  | Lit pystr
  | ILit pystr
  | Star "nat \<Rightarrow> bool"
  | Plus "nat \<Rightarrow> bool"
  | Opt regex
  | Alt regex regex
  | Seq regex regex
  | Group regex

fun star :: "(nat \<Rightarrow> bool) \<Rightarrow> pystr \<Rightarrow> (pystr \<times> pystr) list" where
  "star p [] = [([], [])]"
| "star p (c # cs) =
     (if p c then map (\<lambda>(m, r). (c # m, r)) (star p cs) else []) @ [([], c # cs)]"

fun run :: "regex \<Rightarrow> pystr \<Rightarrow> (pystr list \<times> pystr \<times> pystr) list" where
  "run (Cls p) s = (case s of [] \<Rightarrow> [] | c # cs \<Rightarrow> if p c then [([], [c], cs)] else [])"
| "run (Lit l) s = (if startswith s l then [([], l, drop (length l) s)] else [])"
| "run (ILit l) s =
     (if lower (take (length l) s) = lower l then [([], take (length l) s, drop (length l) s)]
      else [])"
| "run (Star p) s = map (\<lambda>(m, r). ([], m, r)) (star p s)"
| "run (Plus p) s =
     (case s of
        [] \<Rightarrow> []
      | c # cs \<Rightarrow> if p c then map (\<lambda>(m, r). ([], c # m, r)) (star p cs) else [])"
| "run (Opt a) s = run a s @ [([], [], s)]"
| "run (Alt a b) s = run a s @ run b s"
| "run (Seq a b) s =
     concat (map (\<lambda>(g1, m1, r1). map (\<lambda>(g2, m2, r2). (g1 @ g2, m1 @ m2, r2)) (run b r1)) (run a s))"
| "run (Group a) s = map (\<lambda>(g, m, r). (g @ [m], m, r)) (run a s)"

text \<open>\<open>re.match(pattern, s)\<close>: the groups of the first match at the start of \<open>s\<close>,
  or \<open>None\<close>.\<close>

definition re_match :: "regex \<Rightarrow> pystr \<Rightarrow> pystr list option" where
  "re_match r s = (case run r s of [] \<Rightarrow> None | (g, m, rest) # _ \<Rightarrow> Some g)"

text \<open>
  Splitting at every match, from left to right: at each position the pattern is tried;
  where it matches a non-empty text the piece collected so far ends and the scan goes on
  after the match. This is \<open>re.split(pattern, s)\<close> for a pattern without groups that
  cannot match the empty string, and \<open>s.split(sep)\<close> for the pattern \<open>Lit sep\<close>.
  What is left after a match \<open>m\<close> is written \<open>drop (length m) s\<close>, which is the rest
  that \<open>run\<close> returns with \<open>m\<close>, so that the scan visibly goes on in a shorter string.
\<close>

function split_on :: "regex \<Rightarrow> pystr \<Rightarrow> pystr \<Rightarrow> pystr list" where
  "split_on r cur [] = [rev cur]"
| "split_on r cur (c # cs) =
     (case run r (c # cs) of
        [] \<Rightarrow> split_on r (c # cur) cs
      | (g, m, rest) # _ \<Rightarrow>
          if m = [] then split_on r (c # cur) cs
          else rev cur # split_on r [] (drop (length m) (c # cs)))"
  by pat_completeness auto
termination
  by (relation "measure (\<lambda>(r, cur, s). length s)") auto

section \<open>The condition parser (\<open>inmemorydb/query_parser.py\<close>)\<close>

text \<open>
  \<open>CONDITION_PATTERN\<close> is
  \<^verbatim>\<open>(\w+)\s*(=|!=|<=|>=|<|>)\s*(['"L]?[^"']+['"R]?)\<close>
  where \<open>L\<close> stands for the code point U+2018 (8216) and \<open>R\<close> for U+2019 (8217); the
  plain single quote is 39 and the plain double quote 34.
\<close>

definition opening_quotes :: "nat list" where
  "opening_quotes = [39, 34, 8216]"

definition closing_quotes :: "nat list" where
  "closing_quotes = [39, 34, 8217]"

definition not_plain_quote :: "nat \<Rightarrow> bool" where
  "not_plain_quote c \<longleftrightarrow> c \<noteq> 34 \<and> c \<noteq> 39"

definition OPERATOR_ALTERNATIVES :: regex where
  "OPERATOR_ALTERNATIVES =
     Alt (Lit (str ''='')) (Alt (Lit (str ''!='')) (Alt (Lit (str ''<=''))
       (Alt (Lit (str ''>='')) (Alt (Lit (str ''<'')) (Lit (str ''>''))))))"

definition VALUE_PATTERN :: regex where
  "VALUE_PATTERN =
     Seq (Opt (Cls (\<lambda>c. c \<in> set opening_quotes)))
       (Seq (Plus not_plain_quote) (Opt (Cls (\<lambda>c. c \<in> set closing_quotes))))"

definition CONDITION_PATTERN :: regex where
  "CONDITION_PATTERN =
     Seq (Group (Plus is_word)) (Seq (Star is_space) (Seq (Group OPERATOR_ALTERNATIVES)
       (Seq (Star is_space) (Group VALUE_PATTERN))))"

section \<open>The record evaluator (\<open>inmemorydb/query_parser.py\<close>)\<close>

text \<open>A record is a dictionary from field names to values; a condition is the triple
  (field, operator, value) with the operator still a string, as in the source.\<close>

type_synonym pyrecord = "pystr \<rightharpoonup> pyval"
type_synonym condition = "pystr \<times> pystr \<times> pyval"

text \<open>The class attribute \<open>SUPPORTED_OPERATORS\<close>: a dictionary from the operator's
  text to the comparison it stands for.\<close>

definition SUPPORTED_OPERATORS :: "pystr \<rightharpoonup> (pyval \<Rightarrow> pyval \<Rightarrow> error + bool)" where
  "SUPPORTED_OPERATORS = map_of
     [(str ''='', py_eq), (str ''!='', py_ne), (str ''<'', py_lt),
      (str ''>'', py_gt), (str ''<='', py_le), (str ''>='', py_ge)]"

text \<open>
  \<open>QueryParser.evaluate_condition\<close>: an absent field is no match; a string in the
  record is converted with \<open>float\<close> when the literal is a number, and is no match when
  that fails; then the operator is looked up and applied to (record value, literal).
\<close>

definition evaluate_condition :: "pyrecord \<Rightarrow> pystr \<Rightarrow> pystr \<Rightarrow> pyval \<Rightarrow> error + bool" where
  "evaluate_condition rec field operator val =
     (case rec field of
        None \<Rightarrow> Inr False
      | Some record_value \<Rightarrow>
          (case (val, record_value) of
             (Num _, Str s) \<Rightarrow>
               (case py_float s of
                  None \<Rightarrow> Inr False
                | Some x \<Rightarrow>
                    (case SUPPORTED_OPERATORS operator of
                       None \<Rightarrow> Inl KeyError
                     | Some f \<Rightarrow> f (Num x) val))
           | _ \<Rightarrow>
               (case SUPPORTED_OPERATORS operator of
                  None \<Rightarrow> Inl KeyError
                | Some f \<Rightarrow> f record_value val)))"

text \<open>\<open>QueryParser.evaluate_record\<close>: \<open>all\<close> over a generator stops at the first
  condition that is false, and an exception raised by a condition leaves it at once.\<close>

fun evaluate_record :: "pyrecord \<Rightarrow> condition list \<Rightarrow> error + bool" where
  "evaluate_record rec [] = Inr True"
| "evaluate_record rec ((field, operator, val) # conds) =
     (case evaluate_condition rec field operator val of
        Inl e \<Rightarrow> Inl e
      | Inr b \<Rightarrow> if b then evaluate_record rec conds else Inr False)"

section \<open>Parsing a query\<close>

text \<open>\<open>QueryParser.parse_value\<close>: a value that starts with one of the opening quotes
  and ends with one of the closing quotes loses its first and last character and is a
  string; any other value is the number \<open>float\<close> makes of it, or itself when \<open>float\<close>
  raises.\<close>

definition parse_value :: "pystr \<Rightarrow> pyval" where
  "parse_value v =
     (if startswith_any v opening_quotes \<and> endswith_any v closing_quotes then Str (slice_1_m1 v)
      else (case py_float v of Some x \<Rightarrow> Num x | None \<Rightarrow> Str v))"

text \<open>\<open>QueryParser.parse_condition\<close>. The pattern has three groups, so the last case
  of the match on the groups cannot arise.\<close>

definition parse_condition :: "pystr \<Rightarrow> error + condition" where
  "parse_condition cond =
     (case re_match CONDITION_PATTERN (strip cond) of
        None \<Rightarrow> Inl (InvalidConditionFormat cond)
      | Some [field, operator, v] \<Rightarrow>
          if SUPPORTED_OPERATORS operator = None then Inl (UnsupportedOperator operator)
          else Inr (field, operator, parse_value v)
      | Some _ \<Rightarrow> Inl (InvalidConditionFormat cond))"

text \<open>\<open>QueryParser.split_conditions\<close>: \<open>re.split(r"\s+AND\s+", s, flags=re.IGNORECASE)\<close>,
  every piece stripped.\<close>

definition AND_PATTERN :: regex where
  "AND_PATTERN = Seq (Plus is_space) (Seq (ILit (str ''AND'')) (Plus is_space))"

definition split_conditions :: "pystr \<Rightarrow> pystr list" where
  "split_conditions conditions_str = map strip (split_on AND_PATTERN [] conditions_str)"

text \<open>A list comprehension over a function that may raise: the first exception ends it.\<close>

fun map_raise :: "('a \<Rightarrow> error + 'b) \<Rightarrow> 'a list \<Rightarrow> error + 'b list" where
  "map_raise f [] = Inr []"
| "map_raise f (x # xs) =
     (case f x of
        Inl e \<Rightarrow> Inl e
      | Inr y \<Rightarrow> (case map_raise f xs of Inl e \<Rightarrow> Inl e | Inr ys \<Rightarrow> Inr (y # ys)))"

text \<open>\<open>QueryParser.parse_query\<close>. The test for the keyword is made on the stripped,
  upper-cased query; the keyword is removed by the slice \<open>query[5:]\<close> of the query
  itself.\<close>

definition parse_query :: "pystr \<Rightarrow> error + condition list" where
  "parse_query query =
     (if \<not> startswith (upper (strip query)) (str ''WHERE'') then Inl MustStartWithWhere
      else
        let conditions_str = strip (drop 5 query)
        in if conditions_str = [] then Inl NoConditionsAfterWhere
           else map_raise parse_condition (split_conditions conditions_str))"

section \<open>The store (\<open>inmemorydb/database.py\<close>)\<close>

text \<open>The state of a \<open>Database\<close>: the record list \<open>self.data\<close>, and what has been
  written to \<open>self.logger\<close> by \<open>query\<close> (the exception of each failed query).\<close>

record database =
  data :: "pyrecord list"
  logged :: "error list"

text \<open>The comprehension \<open>[record for record in self.data if evaluate_record(record,
  conditions)]\<close>.\<close>

fun select_records :: "pyrecord list \<Rightarrow> condition list \<Rightarrow> error + pyrecord list" where
  "select_records [] conds = Inr []"
| "select_records (rec # recs) conds =
     (case evaluate_record rec conds of
        Inl e \<Rightarrow> Inl e
      | Inr b \<Rightarrow>
          (case select_records recs conds of
             Inl e \<Rightarrow> Inl e
           | Inr rs \<Rightarrow> Inr (if b then rec # rs else rs)))"

text \<open>\<open>Database.query\<close>: returns the result (or the exception) and the state after the
  call. Only a \<open>ValueError\<close> is caught, logged and raised again as the \<open>ValueError\<close>
  "Invalid query: ..."; any other exception passes through.\<close>

definition query :: "database \<Rightarrow> pystr \<Rightarrow> (error + pyrecord list) \<times> database" where
  "query db query_str =
     (case (case parse_query query_str of
              Inl e \<Rightarrow> Inl e
            | Inr conditions \<Rightarrow> select_records (data db) conditions) of
        Inr rs \<Rightarrow> (Inr rs, db)
      | Inl e \<Rightarrow>
          if is_ValueError e then (Inl (QueryError e), db\<lparr>logged := logged db @ [e]\<rparr>)
          else (Inl e, db))"

section \<open>The older free functions (\<open>old_main.py\<close>)\<close>

text \<open>\<open>parse_condition\<close> of \<open>old_main.py\<close>: the same pattern, the same treatment of the
  value, no test of the operator.\<close>

definition old_parse_condition :: "pystr \<Rightarrow> error + condition" where
  "old_parse_condition cond =
     (case re_match CONDITION_PATTERN (strip cond) of
        None \<Rightarrow> Inl (InvalidConditionFormat cond)
      | Some [field, operator, v] \<Rightarrow>
          Inr (field, operator,
               if startswith_any v opening_quotes \<and> endswith_any v closing_quotes
               then Str (slice_1_m1 v)
               else (case py_float v of Some x \<Rightarrow> Num x | None \<Rightarrow> Str v))
      | Some _ \<Rightarrow> Inl (InvalidConditionFormat cond))"

text \<open>\<open>evaluate_condition\<close> of \<open>old_main.py\<close>, with its local dictionary \<open>operators\<close>.\<close>

definition operators :: "pystr \<rightharpoonup> (pyval \<Rightarrow> pyval \<Rightarrow> error + bool)" where
  "operators = map_of
     [(str ''='', py_eq), (str ''<'', py_lt), (str ''>'', py_gt),
      (str ''<='', py_le), (str ''>='', py_ge), (str ''!='', py_ne)]"

definition old_evaluate_condition :: "pyrecord \<Rightarrow> pystr \<Rightarrow> pystr \<Rightarrow> pyval \<Rightarrow> error + bool" where
  "old_evaluate_condition rec field operator val =
     (case rec field of
        None \<Rightarrow> Inr False
      | Some record_value \<Rightarrow>
          (case (val, record_value) of
             (Num _, Str s) \<Rightarrow>
               (case py_float s of
                  None \<Rightarrow> Inr False
                | Some x \<Rightarrow>
                    (case operators operator of
                       None \<Rightarrow> Inl KeyError
                     | Some f \<Rightarrow> f (Num x) val))
           | _ \<Rightarrow>
               (case operators operator of
                  None \<Rightarrow> Inl KeyError
                | Some f \<Rightarrow> f record_value val)))"

text \<open>The inner loop of \<open>query_vessels\<close>: each condition text is parsed and evaluated
  in turn for the vessel at hand; the first condition that is false ends the loop.\<close>

fun matches_all :: "pyrecord \<Rightarrow> pystr list \<Rightarrow> error + bool" where
  "matches_all vessel [] = Inr True"
| "matches_all vessel (cond # conds) =
     (case old_parse_condition cond of
        Inl e \<Rightarrow> Inl e
      | Inr (field, operator, val) \<Rightarrow>
          (case old_evaluate_condition vessel field operator val of
             Inl e \<Rightarrow> Inl e
           | Inr b \<Rightarrow> if \<not> b then Inr False else matches_all vessel conds))"

text \<open>The outer loop of \<open>query_vessels\<close>, \<open>results\<close> being built front to back.\<close>

fun vessels_loop :: "pyrecord list \<Rightarrow> pystr list \<Rightarrow> error + pyrecord list" where
  "vessels_loop [] conds = Inr []"
| "vessels_loop (vessel # vessels) conds =
     (case matches_all vessel conds of
        Inl e \<Rightarrow> Inl e
      | Inr b \<Rightarrow>
          (case vessels_loop vessels conds of
             Inl e \<Rightarrow> Inl e
           | Inr results \<Rightarrow> Inr (if b then vessel # results else results)))"

text \<open>\<open>query_vessels\<close>: the keyword is tested on the query as it is, and the
  conditions are the pieces of \<open>query[5:].strip().split("AND")\<close>.\<close>

definition query_vessels :: "pyrecord list \<Rightarrow> pystr \<Rightarrow> error + pyrecord list" where
  "query_vessels vessels query_str =
     (if \<not> startswith query_str (str ''WHERE'') then Inl MustStartWithWhere
      else vessels_loop vessels (split_on (Lit (str ''AND'')) [] (strip (drop 5 query_str))))"

section \<open>Notions used in the statements and proofs\<close>



text \<open>The first way in which a pattern matches at the start of a string: the match that
  \<open>re.match\<close> reports.\<close>

definition first_run :: "regex \<Rightarrow> pystr \<Rightarrow> (pystr list \<times> pystr \<times> pystr) option" where
  "first_run r s = (case run r s of [] \<Rightarrow> None | x # _ \<Rightarrow> Some x)"


section \<open>Properties of the evaluator\<close>

text \<open>
  Claim C2. An absent field is no match, whatever the operator (also one outside the
  supported set, also \<open>!=\<close>); and when the literal is a number and the record holds a
  string that \<open>float\<close> rejects, the condition is no match either, whatever the operator.
\<close>

theorem absent_field_or_unparsable_string_is_no_match:
  "(rec field = None \<longrightarrow> evaluate_condition rec field operator val = Inr False) \<and>
   (rec field = Some (Str s) \<and> py_float s = None \<longrightarrow>
      evaluate_condition rec field operator (Num x) = Inr False)"
  by (simp add: evaluate_condition_def)

theorem absent_field_or_unparsable_string_is_no_match_witness:
  "evaluate_condition [str ''field'' \<mapsto> Num (Fin 5)] (str ''other'') (str ''!='') (Num (Fin 5))
     = Inr False \<and>
   evaluate_condition [str ''field'' \<mapsto> Str (str ''abc'')] (str ''field'') (str ''!='') (Num (Fin 5))
     = Inr False"
proof -
  have a: "[str ''field'' \<mapsto> Num (Fin 5)] (str ''other'') = None"
    by code_simp
  have b: "[str ''field'' \<mapsto> Str (str ''abc'')] (str ''field'') = Some (Str (str ''abc''))"
    by simp
  have c: "py_float (str ''abc'') = None"
    by code_simp
  from absent_field_or_unparsable_string_is_no_match
         [of "[str ''field'' \<mapsto> Num (Fin 5)]" "str ''other''" "str ''!=''" "Num (Fin 5)"] a
  have "evaluate_condition [str ''field'' \<mapsto> Num (Fin 5)] (str ''other'') (str ''!='')
          (Num (Fin 5)) = Inr False"
    by simp
  moreover
  from absent_field_or_unparsable_string_is_no_match
         [of "[str ''field'' \<mapsto> Str (str ''abc'')]" "str ''field''" "str ''!=''" "Num (Fin 5)"
             "str ''abc''" "Fin 5"] b c
  have "evaluate_condition [str ''field'' \<mapsto> Str (str ''abc'')] (str ''field'') (str ''!='')
          (Num (Fin 5)) = Inr False"
    by simp
  ultimately show ?thesis by simp
qed

text \<open>
  Claim C1 says that the evaluator never raises and that an ordering comparison between
  a string literal and a numeric record value is no match. On the record \<open>{"a": 5}\<close> the
  condition \<open>a < 'x'\<close>, whose operator is supported, makes both versions of
  \<open>evaluate_condition\<close> raise \<open>TypeError\<close>: only the case of a numeric literal and a
  string in the record is guarded.
\<close>

theorem ordering_of_number_and_string_literal_raises:
  "SUPPORTED_OPERATORS (str ''<'') \<noteq> None \<and>
   evaluate_condition [str ''a'' \<mapsto> Num (Fin 5)] (str ''a'') (str ''<'') (Str (str ''x''))
     = Inl TypeError \<and>
   old_evaluate_condition [str ''a'' \<mapsto> Num (Fin 5)] (str ''a'') (str ''<'') (Str (str ''x''))
     = Inl TypeError"
  by code_simp

text \<open>
  Claim C8 says that the result of \<open>evaluate_record\<close> is the same for every order of
  the conditions. On the record \<open>{"a": 5, "b": 1}\<close> the conditions \<open>b = 2\<close> and
  \<open>a < 'x'\<close> give \<open>False\<close> in this order, the first being false, and \<open>TypeError\<close> in the
  other order.
\<close>

theorem evaluate_record_depends_on_order:
  "evaluate_record [str ''a'' \<mapsto> Num (Fin 5), str ''b'' \<mapsto> Num (Fin 1)]
     [(str ''b'', str ''='', Num (Fin 2)), (str ''a'', str ''<'', Str (str ''x''))] = Inr False \<and>
   evaluate_record [str ''a'' \<mapsto> Num (Fin 5), str ''b'' \<mapsto> Num (Fin 1)]
     [(str ''a'', str ''<'', Str (str ''x'')), (str ''b'', str ''='', Num (Fin 2))] = Inl TypeError"
  by code_simp

text \<open>
  The guarded direction is safe: with a numeric literal and a supported operator,
  \<open>evaluate_condition\<close> returns a boolean on every record.
\<close>

lemma supported_operator_numbers:
  assumes "SUPPORTED_OPERATORS operator = Some f"
  shows "\<exists>b. f (Num x) (Num y) = Inr b"
  using assms
  by (auto simp: SUPPORTED_OPERATORS_def py_eq_def py_ne_def py_lt_def py_gt_def py_le_def py_ge_def
           split: if_splits)

lemma evaluate_condition_numeric_literal:
  assumes "SUPPORTED_OPERATORS operator \<noteq> None"
  shows "\<exists>b. evaluate_condition rec field operator (Num x) = Inr b"
proof -
  from assms obtain f where f: "SUPPORTED_OPERATORS operator = Some f" by auto
  show ?thesis
  proof (cases "rec field")
    case None
    then show ?thesis by (auto simp: evaluate_condition_def)
  next
    case (Some v)
    show ?thesis
    proof (cases v)
      case (Num y)
      with Some f supported_operator_numbers [OF f, of y x] show ?thesis
        by (simp add: evaluate_condition_def)
    next
      case (Str s)
      with Some f show ?thesis
        using supported_operator_numbers [OF f, of _ x]
        by (cases "py_float s") (auto simp: evaluate_condition_def)
    qed
  qed
qed


text \<open>
  \<open>evaluate_record\<close> returns \<open>True\<close> exactly when every condition does; and when no
  condition raises, its result is the conjunction over the set of conditions, so that it
  is the same for every order of the list.
\<close>

lemma evaluate_record_true_iff:
  "evaluate_record rec conds = Inr True \<longleftrightarrow>
     (\<forall>(field, operator, val) \<in> set conds. evaluate_condition rec field operator val = Inr True)"
  by (induction conds) (auto split: sum.splits if_splits)

lemma evaluate_record_without_exception:
  assumes "\<forall>(field, operator, val) \<in> set conds. \<exists>b. evaluate_condition rec field operator val = Inr b"
  shows "evaluate_record rec conds
           = Inr (\<forall>(field, operator, val) \<in> set conds. evaluate_condition rec field operator val = Inr True)"
  using assms by (induction conds) (auto split: sum.splits if_splits)

section \<open>Properties of the parser\<close>

text \<open>
  Claim C4 says that a query parses as the query without its leading whitespace does.
  The keyword is looked for in the stripped query but cut off the query as given:
  \<open>"  WHERE a = 1"\<close> loses its first five characters, two blanks and \<open>WHE\<close>, and the
  rest \<open>"RE a = 1"\<close> is no condition, while \<open>"WHERE a = 1"\<close> parses.
\<close>

theorem leading_whitespace_breaks_keyword_removal:
  "lstrip (str ''  WHERE a = 1'') = str ''WHERE a = 1'' \<and>
   parse_query (str ''WHERE a = 1'') = Inr [(str ''a'', str ''='', Num (Fin 1))] \<and>
   parse_query (str ''  WHERE a = 1'') = Inl (InvalidConditionFormat (str ''RE a = 1''))"
  by code_simp






text \<open>
  Claim C7. A value wrapped in an opening and a closing quote is the string between
  them, whatever that text is; any other value is what \<open>float\<close> makes of it, and the
  value itself as a string only when \<open>float\<close> raises. So \<open>'123'\<close> is the string
  \<open>123\<close>, while the bare \<open>123\<close> is the number.
\<close>

theorem quoted_value_is_string_bare_value_tried_as_float:
  "(q1 \<in> set opening_quotes \<and> q2 \<in> set closing_quotes \<longrightarrow>
      parse_value (q1 # inner @ [q2]) = Str inner) \<and>
   (\<not> (startswith_any v opening_quotes \<and> endswith_any v closing_quotes) \<longrightarrow>
      parse_value v = (case py_float v of Some x \<Rightarrow> Num x | None \<Rightarrow> Str v)) \<and>
   parse_value (39 # str ''123'' @ [39]) = Str (str ''123'') \<and>
   parse_value (str ''123'') = Num (Fin 123)"
proof (intro conjI impI)
  assume "q1 \<in> set opening_quotes \<and> q2 \<in> set closing_quotes"
  then show "parse_value (q1 # inner @ [q2]) = Str inner"
    by (simp add: parse_value_def startswith_any_def endswith_any_def slice_1_m1_def)
next
  assume "\<not> (startswith_any v opening_quotes \<and> endswith_any v closing_quotes)"
  then show "parse_value v = (case py_float v of Some x \<Rightarrow> Num x | None \<Rightarrow> Str v)"
    by (auto simp: parse_value_def)
next
  show "parse_value (39 # str ''123'' @ [39]) = Str (str ''123'')"
    by code_simp
next
  show "parse_value (str ''123'') = Num (Fin 123)"
    by code_simp
qed

theorem quoted_value_is_string_bare_value_tried_as_float_witness:
  "parse_value (34 # str ''12.34'' @ [34]) = Str (str ''12.34'') \<and>
   parse_value (str ''12.34'') = Num (Fin (1234 / 100)) \<and>
   parse_value (str ''text'') = Str (str ''text'')"
proof -
  have q: "34 \<in> set opening_quotes \<and> 34 \<in> set closing_quotes"
    by (simp add: opening_quotes_def closing_quotes_def)
  have b1: "\<not> (startswith_any (str ''12.34'') opening_quotes \<and> endswith_any (str ''12.34'') closing_quotes)"
    by code_simp
  have b2: "\<not> (startswith_any (str ''text'') opening_quotes \<and> endswith_any (str ''text'') closing_quotes)"
    by code_simp
  have f1: "py_float (str ''12.34'') = Some (Fin (1234 / 100))"
    by code_simp
  have f2: "py_float (str ''text'') = None"
    by code_simp
  from quoted_value_is_string_bare_value_tried_as_float [of 34 34 "str ''12.34''" "str ''12.34''"] q b1 f1
  have "parse_value (34 # str ''12.34'' @ [34]) = Str (str ''12.34'') \<and>
        parse_value (str ''12.34'') = Num (Fin (1234 / 100))"
    by simp
  moreover
  from quoted_value_is_string_bare_value_tried_as_float [of 34 34 "str ''12.34''" "str ''text''"] b2 f2
  have "parse_value (str ''text'') = Str (str ''text'')"
    by simp
  ultimately show ?thesis by simp
qed

subsection \<open>The value of a condition\<close>

text \<open>A string that neither starts nor ends with whitespace is left alone by \<open>strip\<close>.\<close>

lemma strip_id:
  assumes "s \<noteq> []" "\<not> is_space (hd s)" "\<not> is_space (last s)"
  shows "strip s = s"
proof -
  have l: "lstrip s = s"
    using assms by (cases s) (simp_all add: lstrip_def)
  have "dropWhile is_space (rev s) = rev s"
    using assms by (simp add: dropWhile_eq_self_iff hd_rev)
  then have "rstrip s = s"
    by (simp add: rstrip_def)
  with l show ?thesis
    by (simp add: strip_def)
qed


text \<open>
  The first match of a sequence is made of the first matches of its parts, when each part
  succeeds on what the one before left; a greedy class quantifier takes the whole run of
  characters of its class first.
\<close>

lemma re_match_first_run: "re_match r s = map_option fst (first_run r s)"
  by (simp add: re_match_def first_run_def split: list.split)

lemma first_run_Seq:
  assumes "first_run a s = Some (g1, m1, r1)" "first_run b r1 = Some (g2, m2, r2)"
  shows "first_run (Seq a b) s = Some (g1 @ g2, m1 @ m2, r2)"
proof -
  from assms(1) obtain xs where a: "run a s = (g1, m1, r1) # xs"
    by (auto simp: first_run_def split: list.splits)
  from assms(2) obtain ys where b: "run b r1 = (g2, m2, r2) # ys"
    by (auto simp: first_run_def split: list.splits)
  show ?thesis
    by (simp add: first_run_def a b)
qed

lemma first_run_Group:
  assumes "first_run a s = Some (g, m, r)"
  shows "first_run (Group a) s = Some (g @ [m], m, r)"
proof -
  from assms obtain xs where a: "run a s = (g, m, r) # xs"
    by (auto simp: first_run_def split: list.splits)
  show ?thesis
    by (simp add: first_run_def a)
qed

lemma star_longest:
  "list_all p ws \<Longrightarrow> r = [] \<or> \<not> p (hd r) \<Longrightarrow> \<exists>zs. star p (ws @ r) = (ws, r) # zs"
proof (induction ws)
  case Nil
  then show ?case by (cases r) auto
next
  case (Cons w ws)
  then obtain zs where "star p (ws @ r) = (ws, r) # zs" by auto
  with Cons.prems(1) show ?case by simp
qed

lemma first_run_Star:
  assumes "list_all p ws" "r = [] \<or> \<not> p (hd r)"
  shows "first_run (Star p) (ws @ r) = Some ([], ws, r)"
proof -
  from star_longest [OF assms] obtain zs where "star p (ws @ r) = (ws, r) # zs" ..
  then show ?thesis
    by (simp add: first_run_def)
qed

lemma first_run_Plus:
  assumes "ws \<noteq> []" "list_all p ws" "r = [] \<or> \<not> p (hd r)"
  shows "first_run (Plus p) (ws @ r) = Some ([], ws, r)"
proof -
  obtain w ws' where ws: "ws = w # ws'" using assms(1) by (cases ws) auto
  with assms(2) have w: "p w" and ws': "list_all p ws'" by simp_all
  from star_longest [OF ws' assms(3)] obtain zs where "star p (ws' @ r) = (ws', r) # zs" ..
  with w show ?thesis
    by (simp add: first_run_def ws)
qed

lemma first_run_Opt_hit: "p c \<Longrightarrow> first_run (Opt (Cls p)) (c # r) = Some ([], [c], r)"
  by (simp add: first_run_def)

lemma first_run_Opt_miss: "r = [] \<or> \<not> p (hd r) \<Longrightarrow> first_run (Opt (Cls p)) r = Some ([], [], r)"
  by (cases r) (auto simp: first_run_def)

lemma supported_operator_cases:
  assumes "SUPPORTED_OPERATORS operator \<noteq> None"
  shows "operator = [61] \<or> operator = [33, 61] \<or> operator = [60] \<or> operator = [62] \<or>
         operator = [60, 61] \<or> operator = [62, 61]"
  using assms by (simp add: SUPPORTED_OPERATORS_def str_def split: if_splits)

lemma first_run_operator:
  assumes "SUPPORTED_OPERATORS operator \<noteq> None" "r = [] \<or> hd r \<noteq> 61"
  shows "first_run OPERATOR_ALTERNATIVES (operator @ r) = Some ([], operator, r)"
  using supported_operator_cases [OF assms(1)] assms(2)
  by (cases r) (auto simp: OPERATOR_ALTERNATIVES_def first_run_def startswith_def str_def)

lemma first_run_value_quoted:
  assumes "oq \<in> set opening_quotes" "cq \<in> set closing_quotes" "t \<noteq> []" "list_all not_plain_quote t"
  shows "first_run VALUE_PATTERN (oq # t @ [cq]) = Some ([], oq # t @ [cq], [])"
proof -
  have o: "first_run (Opt (Cls (\<lambda>c. c \<in> set opening_quotes))) (oq # t @ [cq]) = Some ([], [oq], t @ [cq])"
    using assms(1) by (simp add: first_run_Opt_hit)
  have "first_run (Seq (Plus not_plain_quote) (Opt (Cls (\<lambda>c. c \<in> set closing_quotes)))) (t @ [cq])
          = Some ([], t @ [cq], [])"
  proof (cases "not_plain_quote cq")
    case True
    then have "first_run (Plus not_plain_quote) ((t @ [cq]) @ []) = Some ([], t @ [cq], [])"
      using assms(3,4) by (intro first_run_Plus) simp_all
    moreover have "first_run (Opt (Cls (\<lambda>c. c \<in> set closing_quotes))) [] = Some ([], [], [])"
      by (simp add: first_run_Opt_miss)
    ultimately show ?thesis
      using first_run_Seq by fastforce
  next
    case False
    then have "first_run (Plus not_plain_quote) (t @ [cq]) = Some ([], t, [cq])"
      using assms(3,4) by (intro first_run_Plus) simp_all
    moreover have "first_run (Opt (Cls (\<lambda>c. c \<in> set closing_quotes))) [cq] = Some ([], [cq], [])"
      using assms(2) by (simp add: first_run_Opt_hit)
    ultimately show ?thesis
      using first_run_Seq by fastforce
  qed
  with o show ?thesis
    unfolding VALUE_PATTERN_def using first_run_Seq by fastforce
qed

lemma first_run_value_bare:
  assumes "t \<noteq> []" "list_all not_plain_quote t" "hd t \<noteq> 8216"
  shows "first_run VALUE_PATTERN t = Some ([], t, [])"
proof -
  have "hd t \<notin> set opening_quotes"
    using assms by (cases t) (auto simp: opening_quotes_def not_plain_quote_def)
  then have o: "first_run (Opt (Cls (\<lambda>c. c \<in> set opening_quotes))) t = Some ([], [], t)"
    by (simp add: first_run_Opt_miss)
  have "first_run (Plus not_plain_quote) (t @ []) = Some ([], t, [])"
    using assms(1,2) by (intro first_run_Plus) simp_all
  moreover have "first_run (Opt (Cls (\<lambda>c. c \<in> set closing_quotes))) [] = Some ([], [], [])"
    by (simp add: first_run_Opt_miss)
  ultimately have "first_run (Seq (Plus not_plain_quote) (Opt (Cls (\<lambda>c. c \<in> set closing_quotes)))) t
          = Some ([], t, [])"
    using first_run_Seq by fastforce
  with o show ?thesis
    unfolding VALUE_PATTERN_def using first_run_Seq by fastforce
qed

lemma re_match_condition:
  assumes f: "field \<noteq> []" "list_all is_word field"
    and op: "SUPPORTED_OPERATORS operator \<noteq> None"
    and ws: "list_all is_space ws1" "list_all is_space ws2"
    and v: "first_run VALUE_PATTERN v = Some ([], v, [])" "v \<noteq> []" "\<not> is_space (hd v)"
           "hd (ws2 @ v) \<noteq> 61"
  shows "re_match CONDITION_PATTERN (field @ ws1 @ operator @ ws2 @ v) = Some [field, operator, v]"
proof -
  have opc: "operator \<noteq> [] \<and> \<not> is_word (hd operator) \<and> \<not> is_space (hd operator)"
    using supported_operator_cases [OF op] by (auto simp: is_word_def is_digit_def is_space_def)
  have sw: "\<And>c. is_space c \<Longrightarrow> \<not> is_word c"
    by (auto simp: is_word_def is_digit_def is_space_def)
  have 1: "first_run (Group (Plus is_word)) (field @ ws1 @ operator @ ws2 @ v)
             = Some ([field], field, ws1 @ operator @ ws2 @ v)"
  proof -
    have "\<not> is_word (hd (ws1 @ operator @ ws2 @ v))"
      using ws(1) opc sw by (cases ws1) auto
    then have "first_run (Plus is_word) (field @ ws1 @ operator @ ws2 @ v)
                 = Some ([], field, ws1 @ operator @ ws2 @ v)"
      using f by (intro first_run_Plus) simp_all
    then show ?thesis
      using first_run_Group by fastforce
  qed
  have 2: "first_run (Star is_space) (ws1 @ operator @ ws2 @ v) = Some ([], ws1, operator @ ws2 @ v)"
    using ws(1) opc by (intro first_run_Star) simp_all
  have 3: "first_run (Group OPERATOR_ALTERNATIVES) (operator @ ws2 @ v) = Some ([operator], operator, ws2 @ v)"
  proof -
    have "first_run OPERATOR_ALTERNATIVES (operator @ ws2 @ v) = Some ([], operator, ws2 @ v)"
      using op v(4) by (intro first_run_operator) simp_all
    then show ?thesis
      using first_run_Group by fastforce
  qed
  have 4: "first_run (Star is_space) (ws2 @ v) = Some ([], ws2, v)"
    using ws(2) v(3) by (intro first_run_Star) simp_all
  have 5: "first_run (Group VALUE_PATTERN) v = Some ([v], v, [])"
    using v(1) first_run_Group by fastforce
  from 4 5 have 45: "first_run (Seq (Star is_space) (Group VALUE_PATTERN)) (ws2 @ v) = Some ([v], ws2 @ v, [])"
    using first_run_Seq by fastforce
  from 3 45 have 345: "first_run (Seq (Group OPERATOR_ALTERNATIVES) (Seq (Star is_space) (Group VALUE_PATTERN)))
                         (operator @ ws2 @ v) = Some ([operator, v], operator @ ws2 @ v, [])"
    using first_run_Seq by fastforce
  from 2 345 have 2345: "first_run (Seq (Star is_space) (Seq (Group OPERATOR_ALTERNATIVES)
                           (Seq (Star is_space) (Group VALUE_PATTERN)))) (ws1 @ operator @ ws2 @ v)
                         = Some ([operator, v], ws1 @ operator @ ws2 @ v, [])"
    using first_run_Seq by fastforce
  from 1 2345 have "first_run CONDITION_PATTERN (field @ ws1 @ operator @ ws2 @ v)
                      = Some ([field, operator, v], field @ ws1 @ operator @ ws2 @ v, [])"
    unfolding CONDITION_PATTERN_def using first_run_Seq by fastforce
  then show ?thesis
    by (simp add: re_match_first_run)
qed

lemma parse_condition_shape:
  assumes f: "field \<noteq> []" "list_all is_word field"
    and op: "SUPPORTED_OPERATORS operator \<noteq> None"
    and ws: "list_all is_space ws1" "list_all is_space ws2"
    and v: "first_run VALUE_PATTERN v = Some ([], v, [])" "v \<noteq> []" "\<not> is_space (hd v)"
           "hd (ws2 @ v) \<noteq> 61" "\<not> is_space (last v)"
  shows "parse_condition (field @ ws1 @ operator @ ws2 @ v) = Inr (field, operator, parse_value v)"
proof -
  have "\<not> is_space (hd field)"
    using f by (cases field) (auto simp: is_word_def is_digit_def is_space_def)
  then have "strip (field @ ws1 @ operator @ ws2 @ v) = field @ ws1 @ operator @ ws2 @ v"
    using f(1) v(2,5) by (intro strip_id) simp_all
  moreover note re_match_condition [OF f op ws v(1-4)]
  ultimately show ?thesis
    using op by (simp add: parse_condition_def)
qed

lemma parse_value_quoted:
  "q1 \<in> set opening_quotes \<Longrightarrow> q2 \<in> set closing_quotes \<Longrightarrow> parse_value (q1 # inner @ [q2]) = Str inner"
  by (simp add: parse_value_def startswith_any_def endswith_any_def slice_1_m1_def)


text \<open>
  Claim C3 says that the value is all the text after the operator, that quotes are
  stripped exactly when one matching pair wraps the value, and that the text is taken
  verbatim, apostrophes included. The pattern stops the value at the first plain quote
  after its first character, and \<open>parse_value\<close> strips any opening quote with any
  closing quote: \<open>NAME = "O'Brien"\<close> has the value \<open>O\<close>, the bare \<open>O'Brien\<close> has the
  value \<open>O'\<close>, the unmatched pair in \<open>'abc"\<close> is stripped, and the text after the
  closing quote in \<open>'abc' def\<close> is dropped.
\<close>

theorem quote_inside_value_counterexample:
  "parse_condition (str ''NAME = \"O'Brien\"'') = Inr (str ''NAME'', str ''='', Str (str ''O'')) \<and>
   parse_condition (str ''NAME = O'Brien'') = Inr (str ''NAME'', str ''='', Str (str ''O'' @ [39])) \<and>
   parse_condition (str ''NAME = 'abc\"'') = Inr (str ''NAME'', str ''='', Str (str ''abc'')) \<and>
   parse_condition (str ''NAME = 'abc' def'') = Inr (str ''NAME'', str ''='', Str (str ''abc''))"
  by code_simp

text \<open>
  Claim C3 as amended. Take a field of word characters, a supported operator, any
  whitespace (or none) around the operator, and a non-empty text \<open>t\<close> without plain
  single or double quotes. If \<open>t\<close> is wrapped in one of the opening quotes
  (\<open>'\<close>, \<open>"\<close>, U+2018) and one of the closing quotes (\<open>'\<close>, \<open>"\<close>, U+2019), paired or
  not, the value is the string \<open>t\<close>, verbatim. If \<open>t\<close> stands bare, has no whitespace at
  either end, does not start with U+2018 and does not follow the operator directly with
  an \<open>=\<close>, the value is \<open>t\<close> itself: the number \<open>float\<close> makes of it, or else the
  string \<open>t\<close>, verbatim. What an embedded plain quote does is left out.
\<close>

theorem value_token_of_condition:
  assumes "field \<noteq> []" "list_all is_word field"
    and "SUPPORTED_OPERATORS operator \<noteq> None"
    and "list_all is_space ws1" "list_all is_space ws2"
    and "t \<noteq> []" "list_all not_plain_quote t"
  shows "(oq \<in> set opening_quotes \<and> cq \<in> set closing_quotes \<longrightarrow>
            parse_condition (field @ ws1 @ operator @ ws2 @ oq # t @ [cq]) = Inr (field, operator, Str t)) \<and>
         (\<not> is_space (hd t) \<and> \<not> is_space (last t) \<and> hd t \<noteq> 8216 \<and> hd (ws2 @ t) \<noteq> 61 \<longrightarrow>
            parse_condition (field @ ws1 @ operator @ ws2 @ t)
              = Inr (field, operator, case py_float t of Some x \<Rightarrow> Num x | None \<Rightarrow> Str t))"
proof (intro conjI impI)
  assume q: "oq \<in> set opening_quotes \<and> cq \<in> set closing_quotes"
  let ?v = "oq # t @ [cq]"
  from q have oq: "oq = 39 \<or> oq = 34 \<or> oq = 8216" and cq: "cq = 39 \<or> cq = 34 \<or> cq = 8217"
    by (simp_all add: opening_quotes_def closing_quotes_def)
  from oq have ns1: "\<not> is_space oq" and ne: "oq \<noteq> 61"
    by (auto simp: is_space_def)
  from cq have ns2: "\<not> is_space cq"
    by (auto simp: is_space_def)
  have sp61: "\<not> is_space 61"
    by (simp add: is_space_def)
  have h: "hd (ws2 @ ?v) \<noteq> 61"
  proof (cases ws2)
    case Nil
    with ne show ?thesis by simp
  next
    case (Cons w ws)
    with assms(5) have "is_space w" by simp
    with sp61 have "w \<noteq> 61" by auto
    with Cons show ?thesis by simp
  qed
  have v1: "first_run VALUE_PATTERN ?v = Some ([], ?v, [])"
    using q assms(6,7) by (intro first_run_value_quoted) simp_all
  have v2: "?v \<noteq> []" by simp
  have v3: "\<not> is_space (hd ?v)" using ns1 by simp
  have v5: "\<not> is_space (last ?v)" using ns2 by simp
  have "parse_condition (field @ ws1 @ operator @ ws2 @ ?v) = Inr (field, operator, parse_value ?v)"
    by (rule parse_condition_shape [OF assms(1-5) v1 v2 v3 h v5])
  moreover have "parse_value ?v = Str t"
    using q by (simp add: parse_value_quoted)
  ultimately show "parse_condition (field @ ws1 @ operator @ ws2 @ oq # t @ [cq])
      = Inr (field, operator, Str t)"
    by simp
next
  assume b: "\<not> is_space (hd t) \<and> \<not> is_space (last t) \<and> hd t \<noteq> 8216 \<and> hd (ws2 @ t) \<noteq> 61"
  obtain c cs where t: "t = c # cs" using assms(6) by (cases t) auto
  with assms(7) b have "c \<noteq> 39 \<and> c \<noteq> 34 \<and> c \<noteq> 8216"
    by (simp add: not_plain_quote_def)
  then have "\<not> startswith_any t opening_quotes"
    by (simp add: t startswith_any_def opening_quotes_def)
  then have pv: "parse_value t = (case py_float t of Some x \<Rightarrow> Num x | None \<Rightarrow> Str t)"
    by (simp add: parse_value_def)
  have v1: "first_run VALUE_PATTERN t = Some ([], t, [])"
    using assms(6,7) b by (intro first_run_value_bare) simp_all
  from b have v3: "\<not> is_space (hd t)" and h: "hd (ws2 @ t) \<noteq> 61" and v5: "\<not> is_space (last t)"
    by simp_all
  have "parse_condition (field @ ws1 @ operator @ ws2 @ t) = Inr (field, operator, parse_value t)"
    by (rule parse_condition_shape [OF assms(1-5) v1 assms(6) v3 h v5])
  with pv show "parse_condition (field @ ws1 @ operator @ ws2 @ t)
      = Inr (field, operator, case py_float t of Some x \<Rightarrow> Num x | None \<Rightarrow> Str t)"
    by simp
qed

theorem value_token_of_condition_witness:
  "parse_condition (str ''BUILDER_GROUP = \"Daehan S.B.\"'')
     = Inr (str ''BUILDER_GROUP'', str ''='', Str (str ''Daehan S.B.'')) \<and>
   parse_condition (str ''NAME  !=Vessel-123 (Special)'')
     = Inr (str ''NAME'', str ''!='', Str (str ''Vessel-123 (Special)''))"
proof -
  have f1: "str ''BUILDER_GROUP'' \<noteq> []" "list_all is_word (str ''BUILDER_GROUP'')"
    by code_simp+
  have o1: "SUPPORTED_OPERATORS (str ''='') \<noteq> None"
    by code_simp
  have w: "list_all is_space (str '' '')" "list_all is_space (str '''')" "list_all is_space (str ''  '')"
    by code_simp+
  have t1: "str ''Daehan S.B.'' \<noteq> []" "list_all not_plain_quote (str ''Daehan S.B.'')"
    by code_simp+
  have q1: "34 \<in> set opening_quotes \<and> 34 \<in> set closing_quotes"
    by (simp add: opening_quotes_def closing_quotes_def)
  have e1: "str ''BUILDER_GROUP'' @ str '' '' @ str ''='' @ str '' '' @ 34 # str ''Daehan S.B.'' @ [34]
              = str ''BUILDER_GROUP = \"Daehan S.B.\"''"
    by code_simp
  have f2: "str ''NAME'' \<noteq> []" "list_all is_word (str ''NAME'')"
    by code_simp+
  have o2: "SUPPORTED_OPERATORS (str ''!='') \<noteq> None"
    by code_simp
  have t2: "str ''Vessel-123 (Special)'' \<noteq> []" "list_all not_plain_quote (str ''Vessel-123 (Special)'')"
    by code_simp+
  have b2: "\<not> is_space (hd (str ''Vessel-123 (Special)'')) \<and> \<not> is_space (last (str ''Vessel-123 (Special)'')) \<and>
            hd (str ''Vessel-123 (Special)'') \<noteq> 8216 \<and> hd (str '''' @ str ''Vessel-123 (Special)'') \<noteq> 61"
    by code_simp
  have p2: "py_float (str ''Vessel-123 (Special)'') = None"
    by code_simp
  have e2: "str ''NAME'' @ str ''  '' @ str ''!='' @ str '''' @ str ''Vessel-123 (Special)''
              = str ''NAME  !=Vessel-123 (Special)''"
    by code_simp
  from value_token_of_condition [OF f1 o1 w(1) w(1) t1, of 34 34] q1
  have "parse_condition (str ''BUILDER_GROUP'' @ str '' '' @ str ''='' @ str '' '' @ 34 # str ''Daehan S.B.'' @ [34])
          = Inr (str ''BUILDER_GROUP'', str ''='', Str (str ''Daehan S.B.''))"
    by blast
  then have r1: "parse_condition (str ''BUILDER_GROUP = \"Daehan S.B.\"'')
          = Inr (str ''BUILDER_GROUP'', str ''='', Str (str ''Daehan S.B.''))"
    by (simp only: e1)
  from value_token_of_condition [OF f2 o2 w(3) w(2) t2, of 34 34] b2
  have "parse_condition (str ''NAME'' @ str ''  '' @ str ''!='' @ str '''' @ str ''Vessel-123 (Special)'')
          = Inr (str ''NAME'', str ''!='',
                 case py_float (str ''Vessel-123 (Special)'') of Some x \<Rightarrow> Num x | None \<Rightarrow> Str (str ''Vessel-123 (Special)''))"
    by blast
  then have r2: "parse_condition (str ''NAME  !=Vessel-123 (Special)'')
          = Inr (str ''NAME'', str ''!='', Str (str ''Vessel-123 (Special)''))"
    by (simp only: e2 p2 option.case)
  from r1 r2 show ?thesis by blast
qed


subsection \<open>Numeric literals\<close>










section \<open>Properties of the store\<close>


section \<open>The two pipelines compared\<close>

text \<open>
  Claim C5. On the one record \<open>{"a": 1, "b": 2}\<close> the older \<open>query_vessels\<close> and the
  newer \<open>Database.query\<close> disagree twice: the query \<open>"where a = 1"\<close> is refused by the
  older one, which wants the keyword in upper case, and answered by the newer one; and
  \<open>"WHERE a = 1 and b = 2"\<close> is one condition for the older one, which splits at
  \<open>AND\<close> in upper case only (its value is the string \<open>"1 and b = 2"\<close>, which the record
  does not equal), and two conditions for the newer one, which the record meets.
\<close>

theorem old_and_new_pipeline_differ:
  "query_vessels [[str ''a'' \<mapsto> Num (Fin 1), str ''b'' \<mapsto> Num (Fin 2)]] (str ''where a = 1'')
     = Inl MustStartWithWhere \<and>
   fst (query \<lparr>data = [[str ''a'' \<mapsto> Num (Fin 1), str ''b'' \<mapsto> Num (Fin 2)]], logged = []\<rparr>
          (str ''where a = 1''))
     = Inr [[str ''a'' \<mapsto> Num (Fin 1), str ''b'' \<mapsto> Num (Fin 2)]] \<and>
   query_vessels [[str ''a'' \<mapsto> Num (Fin 1), str ''b'' \<mapsto> Num (Fin 2)]]
       (str ''WHERE a = 1 and b = 2'')
     = Inr [] \<and>
   fst (query \<lparr>data = [[str ''a'' \<mapsto> Num (Fin 1), str ''b'' \<mapsto> Num (Fin 2)]], logged = []\<rparr>
          (str ''WHERE a = 1 and b = 2''))
     = Inr [[str ''a'' \<mapsto> Num (Fin 1), str ''b'' \<mapsto> Num (Fin 2)]]"
proof -
  let ?r = "[str ''a'' \<mapsto> Num (Fin 1), str ''b'' \<mapsto> Num (Fin 2)]"
  let ?db = "\<lparr>data = [?r], logged = []\<rparr>"
  have k1: "startswith (str ''where a = 1'') (str ''WHERE'') = False"
    by code_simp
  have p1: "parse_query (str ''where a = 1'') = Inr [(str ''a'', str ''='', Num (Fin 1))]"
    by code_simp
  have e1: "evaluate_record ?r [(str ''a'', str ''='', Num (Fin 1))] = Inr True"
    by code_simp
  have k2: "startswith (str ''WHERE a = 1 and b = 2'') (str ''WHERE'') = True"
    by code_simp
  have s2: "split_on (Lit (str ''AND'')) [] (strip (drop 5 (str ''WHERE a = 1 and b = 2'')))
              = [str ''a = 1 and b = 2'']"
    by code_simp
  have m2: "matches_all ?r [str ''a = 1 and b = 2''] = Inr False"
    by code_simp
  have p2: "parse_query (str ''WHERE a = 1 and b = 2'')
              = Inr [(str ''a'', str ''='', Num (Fin 1)), (str ''b'', str ''='', Num (Fin 2))]"
    by code_simp
  have e2: "evaluate_record ?r [(str ''a'', str ''='', Num (Fin 1)), (str ''b'', str ''='', Num (Fin 2))]
              = Inr True"
    by code_simp
  have c1: "query_vessels [?r] (str ''where a = 1'') = Inl MustStartWithWhere"
    unfolding query_vessels_def k1 by simp
  have c2: "fst (query ?db (str ''where a = 1'')) = Inr [?r]"
    unfolding query_def p1 by (simp add: e1 del: evaluate_record.simps)
  have c3: "query_vessels [?r] (str ''WHERE a = 1 and b = 2'') = Inr []"
    unfolding query_vessels_def k2 s2 by (simp add: m2 del: matches_all.simps)
  have c4: "fst (query ?db (str ''WHERE a = 1 and b = 2'')) = Inr [?r]"
    unfolding query_def p2 by (simp add: e2 del: evaluate_record.simps)
  from c1 c2 c3 c4 show ?thesis by blast
qed

end
